theory Spec2Isabelle
  imports Complex_Main
begin

section \<open>JavaScript values used by the form controller\<close>

text \<open>
  The controller of \<^verbatim>\<open>src/pages/Index.tsx\<close> stores every field as a string and turns it
  into a number with \<^verbatim>\<open>Number(...)\<close>. A string is a list of code units; \<^typ>\<open>char\<close> covers
  the code units U+0000 to U+00FF. A number is an IEEE 754 double: NaN, the two
  infinities, or a finite value, kept as the rational it denotes. The sign of zero is not
  kept: \<^verbatim>\<open>isNaN\<close>, \<^verbatim>\<open>>\<close> and \<^verbatim>\<open>toString\<close>, the only operations the controller applies to a
  number, do not tell \<^verbatim>\<open>-0\<close> from \<^verbatim>\<open>+0\<close>.
\<close>

datatype number = NaN | PosInfinity | NegInfinity | Finite rat

text \<open>The global \<^verbatim>\<open>isNaN\<close> on a number.\<close>

fun isNaN :: "number \<Rightarrow> bool" where
  "isNaN NaN = True"
| "isNaN _ = False"

text \<open>\<^verbatim>\<open>Number.isFinite\<close>.\<close>

fun isFinite :: "number \<Rightarrow> bool" where
  "isFinite (Finite _) = True"
| "isFinite _ = False"

text \<open>The relational operator \<^verbatim>\<open>x > y\<close> on numbers: false as soon as one side is NaN.\<close>

fun numberGreaterThan :: "number \<Rightarrow> number \<Rightarrow> bool" where
  "numberGreaterThan NaN _ = False"
| "numberGreaterThan _ NaN = False"
| "numberGreaterThan PosInfinity PosInfinity = False"
| "numberGreaterThan PosInfinity _ = True"
| "numberGreaterThan _ PosInfinity = False"
| "numberGreaterThan NegInfinity _ = False"
| "numberGreaterThan _ NegInfinity = True"
| "numberGreaterThan (Finite a) (Finite b) = (b < a)"

fun negate :: "number \<Rightarrow> number" where
  "negate NaN = NaN"
| "negate PosInfinity = NegInfinity"
| "negate NegInfinity = PosInfinity"
| "negate (Finite q) = Finite (- q)"

subsection \<open>Rounding a positive rational to the nearest double\<close>

text \<open>
  \<open>bitLength n\<close> is the number of binary digits of \<open>n\<close>; \<open>floorLog2 num den\<close> is the
  binary exponent \<open>e\<close> with \<open>2^e \<le> num / den < 2^(e+1)\<close>, for positive \<open>num\<close> and \<open>den\<close>.
\<close>

fun bitLength :: "nat \<Rightarrow> nat" where
  "bitLength n = (if n = 0 then 0 else Suc (bitLength (n div 2)))"

declare bitLength.simps [simp del]

definition pow2Le :: "int \<Rightarrow> nat \<Rightarrow> nat \<Rightarrow> bool" where
  \<comment> \<open>\<open>2^k \<le> num / den\<close>\<close>
  "pow2Le k num den =
     (if 0 \<le> k then 2 ^ nat k * den \<le> num else den \<le> num * 2 ^ nat (- k))"

definition floorLog2 :: "nat \<Rightarrow> nat \<Rightarrow> int" where
  "floorLog2 num den =
     (let k = int (bitLength num) - int (bitLength den)
      in if pow2Le k num den then k else k - 1)"

text \<open>Rounding \<open>n / d\<close> to an integer, a tie going to the even neighbour.\<close>

definition roundHalfEven :: "nat \<Rightarrow> nat \<Rightarrow> nat" where
  "roundHalfEven n d =
     (let q = n div d; r = n mod d
      in if 2 * r < d then q
         else if d < 2 * r then q + 1
         else if even q then q else q + 1)"

definition pow2 :: "int \<Rightarrow> rat" where
  "pow2 k = (if 0 \<le> k then 2 ^ nat k else 1 / 2 ^ nat (- k))"

text \<open>
  The Number value for the positive real \<open>num / den\<close>: the nearest double, ties to the even
  significand, with 53 significant bits down to the exponent \<open>-1022\<close> and multiples of
  \<open>2^-1074\<close> below; a result that reaches \<open>2^1024\<close> is \<open>+Infinity\<close>.
\<close>

definition toDouble :: "nat \<Rightarrow> nat \<Rightarrow> number" where
  "toDouble num den =
     (let e = max (floorLog2 num den) (- 1022);
          sh = e - 52;
          m = (if 0 \<le> sh then roundHalfEven num (den * 2 ^ nat sh)
               else roundHalfEven (num * 2 ^ nat (- sh)) den)
      in if 0 \<le> sh \<and> 2 ^ 1024 \<le> m * 2 ^ nat sh then PosInfinity
         else Finite (of_nat m * pow2 sh))"

text \<open>The double written as the decimal \<open>m \<times> 10^e\<close>.\<close>

definition decimalToDouble :: "nat \<Rightarrow> int \<Rightarrow> number" where
  "decimalToDouble m e =
     (if m = 0 then Finite 0
      else if 0 \<le> e then toDouble (m * 10 ^ nat e) 1
      else toDouble m (10 ^ nat (- e)))"

subsection \<open>\<^verbatim>\<open>Number(string)\<close>: the \<^verbatim>\<open>StringToNumber\<close> operation\<close>

definition isStrWhiteSpaceChar :: "char \<Rightarrow> bool" where
  \<comment> \<open>TAB, LF, VT, FF, CR, SP and NBSP: the white space and line terminators below U+0100\<close>
  "isStrWhiteSpaceChar c =
     (let n = (of_char c :: nat)
      in n = 9 \<or> n = 10 \<or> n = 11 \<or> n = 12 \<or> n = 13 \<or> n = 32 \<or> n = 160)"

definition trimString :: "string \<Rightarrow> string" where
  "trimString s =
     rev (dropWhile isStrWhiteSpaceChar (rev (dropWhile isStrWhiteSpaceChar s)))"

text \<open>The value of a digit, \<open>16\<close> for a character that is no digit in any radix up to 16.\<close>

definition digitValue :: "char \<Rightarrow> nat" where
  "digitValue c =
     (let n = (of_char c :: nat)
      in if 48 \<le> n \<and> n \<le> 57 then n - 48
         else if 97 \<le> n \<and> n \<le> 102 then n - 87
         else if 65 \<le> n \<and> n \<le> 70 then n - 55
         else 16)"

definition isDigit :: "nat \<Rightarrow> char \<Rightarrow> bool" where
  "isDigit radix c = (digitValue c < radix)"

fun digitsToNat :: "nat \<Rightarrow> nat \<Rightarrow> string \<Rightarrow> nat" where
  "digitsToNat radix acc [] = acc"
| "digitsToNat radix acc (c # cs) = digitsToNat radix (acc * radix + digitValue c) cs"

text \<open>
  \<^verbatim>\<open>NonDecimalIntegerLiteral\<close>: \<^verbatim>\<open>0x\<close>, \<^verbatim>\<open>0o\<close> or \<^verbatim>\<open>0b\<close> (either case) and at least one
  digit of the radix; no sign, no separators.
\<close>

definition radixOfPrefix :: "char \<Rightarrow> nat option" where
  "radixOfPrefix c =
     (if c = CHR ''x'' \<or> c = CHR ''X'' then Some 16
      else if c = CHR ''o'' \<or> c = CHR ''O'' then Some 8
      else if c = CHR ''b'' \<or> c = CHR ''B'' then Some 2
      else None)"

definition parseNonDecimalIntegerLiteral :: "string \<Rightarrow> nat option" where
  "parseNonDecimalIntegerLiteral s =
     (case s of
        c0 # c1 # ds \<Rightarrow>
          (if c0 = CHR ''0'' \<and> ds \<noteq> [] then
             (case radixOfPrefix c1 of
                Some radix \<Rightarrow>
                  if list_all (isDigit radix) ds then Some (digitsToNat radix 0 ds) else None
              | None \<Rightarrow> None)
           else None)
      | _ \<Rightarrow> None)"

text \<open>\<^verbatim>\<open>DecimalDigits\<close>, non-empty.\<close>

definition parseDecimalDigits :: "string \<Rightarrow> nat option" where
  "parseDecimalDigits ds =
     (if ds \<noteq> [] \<and> list_all (isDigit 10) ds then Some (digitsToNat 10 0 ds) else None)"

text \<open>An optional \<^verbatim>\<open>ExponentPart\<close> that ends the literal: the exponent, \<open>0\<close> when absent.\<close>

definition parseExponentPart :: "string \<Rightarrow> int option" where
  "parseExponentPart s =
     (case s of
        [] \<Rightarrow> Some 0
      | c # r \<Rightarrow>
          if c = CHR ''e'' \<or> c = CHR ''E'' then
            (case r of
               [] \<Rightarrow> None
             | sg # ds \<Rightarrow>
                 if sg = CHR ''+'' then map_option int (parseDecimalDigits ds)
                 else if sg = CHR ''-'' then map_option (\<lambda>n. - int n) (parseDecimalDigits ds)
                 else map_option int (parseDecimalDigits r))
          else None)"

text \<open>
  \<^verbatim>\<open>StrUnsignedDecimalLiteral\<close> other than \<^verbatim>\<open>Infinity\<close>: digits, an optional point and
  digits, an optional exponent, with a digit before or after the point. The result is
  the pair \<open>(m, e)\<close> of the mathematical value \<open>m \<times> 10^e\<close>.
\<close>

definition parseUnsignedDecimal :: "string \<Rightarrow> (nat \<times> int) option" where
  "parseUnsignedDecimal s =
     (let ip = takeWhile (isDigit 10) s;
          r1 = dropWhile (isDigit 10) s;
          fp = (case r1 of c # t \<Rightarrow> if c = CHR ''.'' then takeWhile (isDigit 10) t else []
                | [] \<Rightarrow> []);
          r2 = (case r1 of c # t \<Rightarrow> if c = CHR ''.'' then dropWhile (isDigit 10) t else r1
                | [] \<Rightarrow> [])
      in if ip = [] \<and> fp = [] then None
         else (case parseExponentPart r2 of
                 None \<Rightarrow> None
               | Some e \<Rightarrow> Some (digitsToNat 10 0 (ip @ fp), e - int (length fp))))"

definition parseStrUnsignedDecimalLiteral :: "string \<Rightarrow> number" where
  "parseStrUnsignedDecimalLiteral s =
     (if s = ''Infinity'' then PosInfinity
      else (case parseUnsignedDecimal s of
              None \<Rightarrow> NaN
            | Some (m, e) \<Rightarrow> decimalToDouble m e))"

definition parseStrDecimalLiteral :: "string \<Rightarrow> number" where
  "parseStrDecimalLiteral s =
     (case s of
        [] \<Rightarrow> NaN
      | c # r \<Rightarrow>
          if c = CHR ''+'' then parseStrUnsignedDecimalLiteral r
          else if c = CHR ''-'' then negate (parseStrUnsignedDecimalLiteral r)
          else parseStrUnsignedDecimalLiteral s)"

text \<open>
  \<^verbatim>\<open>StringToNumber\<close>: white space is trimmed off both ends, the empty rest is \<open>0\<close>, a rest
  that is no \<^verbatim>\<open>StrNumericLiteral\<close> is NaN. The mathematical value is rounded exactly, as
  the engines do (the standard fixes the result for literals of up to 20 significant
  digits and allows this one beyond).
\<close>

definition StringToNumber :: "string \<Rightarrow> number" where
  "StringToNumber str =
     (let t = trimString str
      in if t = [] then Finite 0
         else (case parseNonDecimalIntegerLiteral t of
                 Some n \<Rightarrow> (if n = 0 then Finite 0 else toDouble n 1)
               | None \<Rightarrow> parseStrDecimalLiteral t))"

text \<open>\<^verbatim>\<open>Number(value)\<close> for a string argument.\<close>

definition Number :: "string \<Rightarrow> number" where
  "Number s = StringToNumber s"

section \<open>The form controller of \<^verbatim>\<open>src/pages/Index.tsx\<close>\<close>

subsection \<open>Data\<close>

record FormData =
  pregnancies :: string
  glucose :: string
  bloodPressure :: string
  skinThickness :: string
  insulin :: string
  bmi :: string
  diabetesPedigree :: string
  age :: string

text \<open>\<^verbatim>\<open>keyof FormData\<close>: the eight keys, and the string each one is.\<close>

datatype FormDataKey =
  pregnancies_key | glucose_key | bloodPressure_key | skinThickness_key
  | insulin_key | bmi_key | diabetesPedigree_key | age_key

fun keyName :: "FormDataKey \<Rightarrow> string" where
  "keyName pregnancies_key = ''pregnancies''"
| "keyName glucose_key = ''glucose''"
| "keyName bloodPressure_key = ''bloodPressure''"
| "keyName skinThickness_key = ''skinThickness''"
| "keyName insulin_key = ''insulin''"
| "keyName bmi_key = ''bmi''"
| "keyName diabetesPedigree_key = ''diabetesPedigree''"
| "keyName age_key = ''age''"

text \<open>\<^verbatim>\<open>formData[field]\<close>.\<close>

fun getField :: "FormData \<Rightarrow> FormDataKey \<Rightarrow> string" where
  "getField fd pregnancies_key = pregnancies fd"
| "getField fd glucose_key = glucose fd"
| "getField fd bloodPressure_key = bloodPressure fd"
| "getField fd skinThickness_key = skinThickness fd"
| "getField fd insulin_key = insulin fd"
| "getField fd bmi_key = bmi fd"
| "getField fd diabetesPedigree_key = diabetesPedigree fd"
| "getField fd age_key = age fd"

text \<open>\<^verbatim>\<open>{ ...prev, [field]: value }\<close>.\<close>

fun setField :: "FormDataKey \<Rightarrow> string \<Rightarrow> FormData \<Rightarrow> FormData" where
  "setField pregnancies_key v prev = prev\<lparr>pregnancies := v\<rparr>"
| "setField glucose_key v prev = prev\<lparr>glucose := v\<rparr>"
| "setField bloodPressure_key v prev = prev\<lparr>bloodPressure := v\<rparr>"
| "setField skinThickness_key v prev = prev\<lparr>skinThickness := v\<rparr>"
| "setField insulin_key v prev = prev\<lparr>insulin := v\<rparr>"
| "setField bmi_key v prev = prev\<lparr>bmi := v\<rparr>"
| "setField diabetesPedigree_key v prev = prev\<lparr>diabetesPedigree := v\<rparr>"
| "setField age_key v prev = prev\<lparr>age := v\<rparr>"

datatype Prediction = positive | negative

text \<open>The \<^verbatim>\<open>result\<close> state; \<open>None\<close> is \<^verbatim>\<open>null\<close>.\<close>

record Result =
  prediction :: "Prediction option"
  message :: string

text \<open>The argument of a \<^verbatim>\<open>toast(...)\<close> call.\<close>

record Toast =
  title :: string
  description :: string
  variant :: string

text \<open>
  A pending \<^verbatim>\<open>setTimeout\<close>: its delay in milliseconds, and the \<^verbatim>\<open>formData\<close> its callback
  closed over, that of the render whose \<^verbatim>\<open>handlePredict\<close> scheduled it.
\<close>

record Timeout =
  delay :: nat
  closedOver :: FormData

text \<open>
  The three \<^verbatim>\<open>useState\<close> cells of the component, and what it has done to the world: the
  toasts shown so far and the timeouts that have not fired yet, oldest first.
\<close>

record State =
  formData :: FormData
  result :: Result
  isSubmitting :: bool
  toasts :: "Toast list"
  timeouts :: "Timeout list"

definition initialState :: State where
  "initialState =
     \<lparr>formData = \<lparr>pregnancies = '''', glucose = '''', bloodPressure = '''',
                   skinThickness = '''', insulin = '''', bmi = '''',
                   diabetesPedigree = '''', age = ''''\<rparr>,
      result = \<lparr>prediction = None, message = ''''\<rparr>,
      isSubmitting = False, toasts = [], timeouts = []\<rparr>"

subsection \<open>Field edits\<close>

definition handleInputChange :: "FormDataKey \<Rightarrow> string \<Rightarrow> State \<Rightarrow> State" where
  "handleInputChange field v s = s\<lparr>formData := setField field v (formData s)\<rparr>"

text \<open>
  \<^verbatim>\<open>value[0].toString()\<close> raises a TypeError on an empty array. \<^verbatim>\<open>Number.prototype.toString\<close>
  is a parameter: the controller only stores what it returns.
\<close>

datatype error = TypeError

definition handleSliderChange ::
    "(number \<Rightarrow> string) \<Rightarrow> FormDataKey \<Rightarrow> number list \<Rightarrow> State \<Rightarrow> error + State" where
  "handleSliderChange toString field v s =
     (case v of
        [] \<Rightarrow> Inl TypeError
      | v0 # _ \<Rightarrow> Inr (s\<lparr>formData := setField field (toString v0) (formData s)\<rparr>))"

subsection \<open>The slider ranges\<close>

record FieldRange =
  range_min :: number
  range_max :: number
  range_step :: number

fun fieldRanges :: "FormDataKey \<Rightarrow> FieldRange" where
  "fieldRanges pregnancies_key =
     \<lparr>range_min = Finite 0, range_max = Finite 20, range_step = Finite 1\<rparr>"
| "fieldRanges glucose_key =
     \<lparr>range_min = Finite 0, range_max = Finite 300, range_step = Finite 1\<rparr>"
| "fieldRanges bloodPressure_key =
     \<lparr>range_min = Finite 0, range_max = Finite 200, range_step = Finite 1\<rparr>"
| "fieldRanges skinThickness_key =
     \<lparr>range_min = Finite 0, range_max = Finite 100, range_step = Finite 1\<rparr>"
| "fieldRanges insulin_key =
     \<lparr>range_min = Finite 0, range_max = Finite 500, range_step = Finite 1\<rparr>"
| "fieldRanges bmi_key =
     \<lparr>range_min = Finite 10, range_max = Finite 60, range_step = toDouble 1 10\<rparr>"
| "fieldRanges diabetesPedigree_key =
     \<lparr>range_min = Finite 0, range_max = Finite (5 / 2), range_step = toDouble 1 1000\<rparr>"
| "fieldRanges age_key =
     \<lparr>range_min = Finite 1, range_max = Finite 120, range_step = Finite 1\<rparr>"

text \<open>A number lies in a range when neither bound is on its wrong side (NaN lies in none).\<close>

definition withinRange :: "FieldRange \<Rightarrow> number \<Rightarrow> bool" where
  "withinRange r x =
     (\<not> isNaN x \<and> \<not> numberGreaterThan (range_min r) x \<and> \<not> numberGreaterThan x (range_max r))"

subsection \<open>Validation\<close>

definition requiredFields :: "FormDataKey list" where
  "requiredFields =
     [pregnancies_key, glucose_key, bloodPressure_key, skinThickness_key,
      insulin_key, bmi_key, diabetesPedigree_key, age_key]"

text \<open>\<^verbatim>\<open>field.replace(/([A-Z])/g, " $1")\<close>: a space before every letter \<^verbatim>\<open>A\<close> to \<^verbatim>\<open>Z\<close>.\<close>

definition isUpperAZ :: "char \<Rightarrow> bool" where
  "isUpperAZ c = (65 \<le> (of_char c :: nat) \<and> (of_char c :: nat) \<le> 90)"

definition spaceBeforeUpper :: "string \<Rightarrow> string" where
  "spaceBeforeUpper s = concat (map (\<lambda>c. if isUpperAZ c then [CHR '' '', c] else [c]) s)"

text \<open>
  \<^verbatim>\<open>toLowerCase()\<close> on code units below U+0100: \<^verbatim>\<open>A\<close> to \<^verbatim>\<open>Z\<close>, and U+00C0 to U+00DE but
  the multiplication sign U+00D7, move up by 32.
\<close>

definition toLowerCaseChar :: "char \<Rightarrow> char" where
  "toLowerCaseChar c =
     (let n = (of_char c :: nat)
      in if (65 \<le> n \<and> n \<le> 90) \<or> (192 \<le> n \<and> n \<le> 222 \<and> n \<noteq> 215)
         then char_of (n + 32) else c)"

definition toLowerCase :: "string \<Rightarrow> string" where
  "toLowerCase s = map toLowerCaseChar s"

text \<open>The toast of a failing field.\<close>

definition validationToast :: "FormDataKey \<Rightarrow> Toast" where
  "validationToast field =
     \<lparr>title = ''Validation Error'',
      description =
        ''Please enter a valid number for '' @ toLowerCase (spaceBeforeUpper (keyName field)),
      variant = ''destructive''\<rparr>"

text \<open>
  The \<^verbatim>\<open>for (const field of requiredFields)\<close> loop: \<open>Some\<close> toast when it returns
  \<^verbatim>\<open>false\<close> from inside, \<open>None\<close> when it runs to its end. A string is falsy when it is
  empty.
\<close>

fun validateLoop :: "FormData \<Rightarrow> FormDataKey list \<Rightarrow> Toast option" where
  "validateLoop fd [] = None"
| "validateLoop fd (field # rest) =
     (if getField fd field = [] \<or> isNaN (Number (getField fd field))
      then Some (validationToast field)
      else validateLoop fd rest)"

definition validateForm :: "State \<Rightarrow> bool \<times> State" where
  "validateForm s =
     (case validateLoop (formData s) requiredFields of
        Some t \<Rightarrow> (False, s\<lparr>toasts := toasts s @ [t]\<rparr>)
      | None \<Rightarrow> (True, s))"

subsection \<open>Submission\<close>

definition positiveMessage :: string where
  "positiveMessage =
     ''Based on your inputs, there may be an increased risk. Please consult a healthcare professional.''"

definition negativeMessage :: string where
  "negativeMessage =
     ''Based on your inputs, your risk appears to be lower. Continue maintaining a healthy lifestyle!''"

text \<open>The callback handed to \<^verbatim>\<open>setTimeout\<close>, over the \<^verbatim>\<open>formData\<close> it closed over.\<close>

definition timeoutCallback :: "FormData \<Rightarrow> State \<Rightarrow> State" where
  "timeoutCallback fd s =
     (let g = Number (glucose fd);
          b = Number (bmi fd);
          s1 = (if numberGreaterThan g (Finite 140) \<or> numberGreaterThan b (Finite 30)
                then s\<lparr>result := \<lparr>prediction = Some positive, message = positiveMessage\<rparr>\<rparr>
                else s\<lparr>result := \<lparr>prediction = Some negative, message = negativeMessage\<rparr>\<rparr>)
      in s1\<lparr>isSubmitting := False\<rparr>)"

definition handlePredict :: "State \<Rightarrow> State" where
  "handlePredict s =
     (case validateForm s of
        (False, s1) \<Rightarrow> s1
      | (True, s1) \<Rightarrow>
          s1\<lparr>isSubmitting := True,
             result := \<lparr>prediction = None, message = ''''\<rparr>,
             timeouts := timeouts s1 @ [\<lparr>delay = 1500, closedOver = formData s\<rparr>]\<rparr>)"

text \<open>
  Modelled from the spec: the \<^verbatim>\<open>Button\<close> component of \<^verbatim>\<open>@/components/ui/button\<close> is not
  among the sources. The spec has the submit control disabled while a submission is
  pending, a request made then being a no-op: a disabled button does not call its
  \<^verbatim>\<open>onClick\<close>.
\<close>

definition Button_click :: "bool \<Rightarrow> (State \<Rightarrow> State) \<Rightarrow> State \<Rightarrow> State" where
  "Button_click disabled onClick s = (if disabled then s else onClick s)"

subsection \<open>Events\<close>

text \<open>
  What can happen to the mounted component: a text input changes, a slider (of one thumb)
  moves, the submit button is clicked, the oldest pending timeout fires. Each handler runs
  to its end before the next event. A text input may deliver any string, as the type of
  \<^verbatim>\<open>handleInputChange\<close> says; what an input element of type \<^verbatim>\<open>number\<close> lets through
  is left to the browser.
\<close>

datatype Event =
  InputChange FormDataKey string
  | SliderChange FormDataKey number
  | SubmitClick
  | TimeoutFires

fun step :: "(number \<Rightarrow> string) \<Rightarrow> State \<Rightarrow> Event \<Rightarrow> State" where
  "step toString s (InputChange field v) = handleInputChange field v s"
| "step toString s (SliderChange field n) =
     (case handleSliderChange toString field [n] s of Inr s1 \<Rightarrow> s1 | Inl _ \<Rightarrow> s)"
| "step toString s SubmitClick = Button_click (isSubmitting s) handlePredict s"
| "step toString s TimeoutFires =
     (case timeouts s of
        [] \<Rightarrow> s
      | t # ts \<Rightarrow> timeoutCallback (closedOver t) (s\<lparr>timeouts := ts\<rparr>))"

definition run :: "(number \<Rightarrow> string) \<Rightarrow> State \<Rightarrow> Event list \<Rightarrow> State" where
  "run toString s evs = foldl (step toString) s evs"

subsection \<open>Notions for the proofs\<close>

text \<open>The three results the controller ever stores.\<close>

definition resultOK :: "Result \<Rightarrow> bool" where
  "resultOK r =
     (r = \<lparr>prediction = None, message = ''''\<rparr>
      \<or> r = \<lparr>prediction = Some positive, message = positiveMessage\<rparr>
      \<or> r = \<lparr>prediction = Some negative, message = negativeMessage\<rparr>)"

text \<open>What the callback stores for the form data it closed over.\<close>

definition outcome :: "FormData \<Rightarrow> Result" where
  "outcome fd =
     (if numberGreaterThan (Number (glucose fd)) (Finite 140) \<or> numberGreaterThan (Number (bmi fd)) (Finite 30)
      then \<lparr>prediction = Some positive, message = positiveMessage\<rparr>
      else \<lparr>prediction = Some negative, message = negativeMessage\<rparr>)"

text \<open>
  The invariant of the event loop: exactly while \<^verbatim>\<open>isSubmitting\<close> is set there is a pending
  timeout, a single one, of 1500 ms, over form data that passed validation.
\<close>

definition invariant :: "State \<Rightarrow> bool" where
  "invariant s =
     ((if isSubmitting s
       then length (timeouts s) = 1 \<and>
            list_all (\<lambda>t. delay t = 1500 \<and> validateLoop (closedOver t) requiredFields = None)
              (timeouts s)
       else timeouts s = [])
      \<and> resultOK (result s))"

subsection \<open>Sample inputs\<close>

definition sampleForm :: FormData where
  "sampleForm =
     \<lparr>pregnancies = ''2'', glucose = ''140'', bloodPressure = ''70'', skinThickness = ''20'',
      insulin = ''79'', bmi = ''20'', diabetesPedigree = ''0.45'', age = ''32''\<rparr>"

text \<open>The same glucose and bmi, the six other fields different.\<close>

definition otherForm :: FormData where
  "otherForm =
     \<lparr>pregnancies = ''0'', glucose = ''140'', bloodPressure = ''85'', skinThickness = ''31'',
      insulin = ''0'', bmi = ''20'', diabetesPedigree = ''1.2'', age = ''61''\<rparr>"

definition fillForm :: "FormData \<Rightarrow> Event list" where
  "fillForm fd = map (\<lambda>k. InputChange k (getField fd k)) requiredFields"

text \<open>The third field in validation order is not numeric, a later one is empty.\<close>

definition faultyForm :: FormData where
  "faultyForm = sampleForm\<lparr>bloodPressure := ''12px'', insulin := ''''\<rparr>"


text \<open>Two fields that \<^verbatim>\<open>Number\<close> turns into \<^verbatim>\<open>Infinity\<close>.\<close>

definition infiniteForm :: FormData where
  "infiniteForm = sampleForm\<lparr>glucose := ''Infinity'', bmi := ''2e308''\<rparr>"

text \<open>A glucose value above the slider's maximum of 300.\<close>

definition outOfRangeForm :: FormData where
  "outOfRangeForm = sampleForm\<lparr>glucose := ''1000''\<rparr>"

text \<open>A stand-in for \<^verbatim>\<open>Number.prototype.toString\<close> where an example needs one.\<close>

definition sampleToString :: "number \<Rightarrow> string" where
  "sampleToString n = (if n = Finite 50 then ''50'' else ''0'')"

section \<open>Properties\<close>

subsection \<open>Evaluating \<^verbatim>\<open>Number\<close>\<close>

lemma bitLength_0: "bitLength 0 = 0"
  by (simp add: bitLength.simps [of 0])

lemma bitLength_pos: "0 < n \<Longrightarrow> bitLength n = Suc (bitLength (n div 2))"
  by (simp add: bitLength.simps [of n])

lemmas Number_eval =
  Number_def StringToNumber_def trimString_def isStrWhiteSpaceChar_def
  parseNonDecimalIntegerLiteral_def radixOfPrefix_def parseStrDecimalLiteral_def
  parseStrUnsignedDecimalLiteral_def parseUnsignedDecimal_def parseDecimalDigits_def
  isDigit_def digitValue_def parseExponentPart_def decimalToDouble_def toDouble_def
  floorLog2_def pow2Le_def roundHalfEven_def pow2_def bitLength_pos bitLength_0 Let_def

lemma Number_empty: "Number '''' = Finite 0"
  by (simp add: Number_eval)

lemma Number_Infinity: "Number ''Infinity'' = PosInfinity"
  by (simp add: Number_eval)

lemma Number_2e308: "Number ''2e308'' = PosInfinity"
  by (simp add: Number_eval)

lemma Number_12px: "Number ''12px'' = NaN"
  by (simp add: Number_eval)

lemma Number_140: "Number ''140'' = Finite 140"
  by (simp add: Number_eval)

lemma Number_20: "Number ''20'' = Finite 20"
  by (simp add: Number_eval)

lemma Number_1000: "Number ''1000'' = Finite 1000"
  by (simp add: Number_eval)

lemma Number_nearly_140: "Number ''140.00000000000001'' = Finite 140"
  by (simp add: Number_eval)

lemma Number_samples:
  "Number ''2'' = Finite 2" "Number ''70'' = Finite 70" "Number ''79'' = Finite 79"
  "Number ''32'' = Finite 32" "Number ''0'' = Finite 0" "Number ''85'' = Finite 85"
  "Number ''31'' = Finite 31" "Number ''61'' = Finite 61"
  by (simp_all add: Number_eval)

lemma Number_fractions:
  "Number ''0.45'' = Finite (8106479329266893 / 18014398509481984)"
  "Number ''1.2'' = Finite (5404319552844595 / 4503599627370496)"
  by (simp_all add: Number_eval)

subsection \<open>Form data\<close>

lemma getField_setField:
  "getField (setField f v fd) g = (if g = f then v else getField fd g)"
  by (cases f; cases g; simp)

lemma requiredFields_complete: "f \<in> set requiredFields"
  by (cases f) (simp_all add: requiredFields_def)

subsection \<open>The validation loop\<close>

lemma validateLoop_None_iff:
  "validateLoop fd fs = None \<longleftrightarrow>
     (\<forall>f \<in> set fs. getField fd f \<noteq> [] \<and> \<not> isNaN (Number (getField fd f)))"
  by (induction fs) auto

lemma validateLoop_first_failure:
  "\<lbrakk>\<forall>g \<in> set before. getField fd g \<noteq> [] \<and> \<not> isNaN (Number (getField fd g));
    getField fd f = [] \<or> isNaN (Number (getField fd f))\<rbrakk>
   \<Longrightarrow> validateLoop fd (before @ f # after) = Some (validationToast f)"
  by (induction before) auto

lemma validateForm_ok_iff:
  "fst (validateForm s) \<longleftrightarrow>
     (\<forall>f. getField (formData s) f \<noteq> [] \<and> \<not> isNaN (Number (getField (formData s) f)))"
proof -
  have "fst (validateForm s) \<longleftrightarrow> validateLoop (formData s) requiredFields = None"
    by (simp add: validateForm_def split: option.splits)
  then show ?thesis
    using requiredFields_complete by (auto simp: validateLoop_None_iff)
qed

lemma validateForm_ok: "fst (validateForm s) \<Longrightarrow> validateForm s = (True, s)"
  by (simp add: validateForm_def split: option.splits)

lemma handlePredict_ok:
  "fst (validateForm s) \<Longrightarrow>
   handlePredict s =
     s\<lparr>isSubmitting := True, result := \<lparr>prediction = None, message = ''''\<rparr>,
       timeouts := timeouts s @ [\<lparr>delay = 1500, closedOver = formData s\<rparr>]\<rparr>"
  by (simp add: handlePredict_def validateForm_ok)

lemma handlePredict_failed:
  "\<not> fst (validateForm s) \<Longrightarrow>
   \<exists>t. validateLoop (formData s) requiredFields = Some t \<and>
       handlePredict s = s\<lparr>toasts := toasts s @ [t]\<rparr>"
  by (auto simp: handlePredict_def validateForm_def split: option.splits)

subsection \<open>The invariant\<close>

lemma resultOK_callback: "resultOK (result (timeoutCallback fd s))"
  by (simp add: timeoutCallback_def resultOK_def Let_def)

lemma invariant_initial: "invariant initialState"
  by (simp add: invariant_def initialState_def resultOK_def)

lemma invariant_step: "invariant s \<Longrightarrow> invariant (step ts s e)"
proof (cases e)
  case (InputChange f v)
  assume "invariant s"
  then show ?thesis using InputChange by (simp add: invariant_def handleInputChange_def)
next
  case (SliderChange f n)
  assume "invariant s"
  then show ?thesis using SliderChange by (simp add: invariant_def handleSliderChange_def)
next
  case SubmitClick
  assume inv: "invariant s"
  show ?thesis
  proof (cases "isSubmitting s")
    case True
    then show ?thesis using inv SubmitClick by (simp add: Button_click_def)
  next
    case False
    note idle = this
    show ?thesis
    proof (cases "fst (validateForm s)")
      case True
      then have "validateLoop (formData s) requiredFields = None"
        by (simp add: validateForm_def split: option.splits)
      then show ?thesis using inv idle SubmitClick True
        by (simp add: Button_click_def handlePredict_ok invariant_def resultOK_def)
    next
      case False
      then obtain t where "handlePredict s = s\<lparr>toasts := toasts s @ [t]\<rparr>"
        using handlePredict_failed by blast
      then show ?thesis using inv idle SubmitClick
        by (simp add: Button_click_def invariant_def)
    qed
  qed
next
  case TimeoutFires
  assume inv: "invariant s"
  show ?thesis
  proof (cases "timeouts s")
    case Nil
    then show ?thesis using inv TimeoutFires by simp
  next
    case (Cons t ts')
    then have "ts' = []" using inv by (auto simp: invariant_def split: if_splits)
    then show ?thesis using inv TimeoutFires Cons
      by (simp add: invariant_def resultOK_callback) (simp add: timeoutCallback_def Let_def)
  qed
qed

lemma run_Nil: "run ts s [] = s"
  by (simp add: run_def)

lemma run_Cons: "run ts s (e # evs) = run ts (step ts s e) evs"
  by (simp add: run_def)

lemma run_append: "run ts s (xs @ ys) = run ts (run ts s xs) ys"
  by (simp add: run_def)

lemma invariant_run: "invariant s \<Longrightarrow> invariant (run ts s evs)"
  by (induction evs arbitrary: s) (simp_all add: run_Nil run_Cons invariant_step)

lemma invariant_reachable: "invariant (run ts initialState evs)"
  by (rule invariant_run [OF invariant_initial])

subsection \<open>A pending submission\<close>

lemma pending_step:
  "isSubmitting s \<Longrightarrow> e \<noteq> TimeoutFires \<Longrightarrow>
   isSubmitting (step ts s e) \<and> timeouts (step ts s e) = timeouts s \<and>
   result (step ts s e) = result s \<and> toasts (step ts s e) = toasts s"
  by (cases e) (simp_all add: handleInputChange_def handleSliderChange_def Button_click_def)

lemma pending_run:
  "isSubmitting s \<Longrightarrow> TimeoutFires \<notin> set evs \<Longrightarrow>
   isSubmitting (run ts s evs) \<and> timeouts (run ts s evs) = timeouts s \<and>
   result (run ts s evs) = result s \<and> toasts (run ts s evs) = toasts s"
proof (induction evs arbitrary: s)
  case Nil
  then show ?case by (simp add: run_Nil)
next
  case (Cons e evs)
  then have "e \<noteq> TimeoutFires" "TimeoutFires \<notin> set evs" by auto
  with Cons.prems(1) pending_step [of s e ts] Cons.IH [of "step ts s e"]
  show ?case by (simp add: run_Cons)
qed

lemma submit_starts:
  assumes "invariant s" and "\<not> isSubmitting s" and "fst (validateForm s)"
  shows "step ts s SubmitClick =
         s\<lparr>isSubmitting := True, result := \<lparr>prediction = None, message = ''''\<rparr>,
           timeouts := [\<lparr>delay = 1500, closedOver = formData s\<rparr>]\<rparr>"
proof -
  have "timeouts s = []" using assms(1,2) by (simp add: invariant_def)
  then show ?thesis using assms(2,3) by (simp add: Button_click_def handlePredict_ok)
qed

lemma submission_completes:
  assumes "invariant s" and "\<not> isSubmitting s" and "fst (validateForm s)"
    and between: "TimeoutFires \<notin> set evs"
  shows "step ts (run ts (step ts s SubmitClick) evs) TimeoutFires =
         (run ts (step ts s SubmitClick) evs)
           \<lparr>timeouts := [], result := outcome (formData s), isSubmitting := False\<rparr>"
proof -
  let ?s1 = "step ts s SubmitClick"
  let ?s2 = "run ts ?s1 evs"
  note s1 = submit_starts [OF assms(1-3), of ts]
  then have "isSubmitting ?s1" by simp
  from pending_run [OF this between, of ts]
  have "timeouts ?s2 = [\<lparr>delay = 1500, closedOver = formData s\<rparr>]"
    using s1 by simp
  then show ?thesis
    by (simp add: timeoutCallback_def outcome_def Let_def)
qed

subsection \<open>The sample inputs\<close>

lemma sampleForm_valid:
  "getField sampleForm f \<noteq> [] \<and> \<not> isNaN (Number (getField sampleForm f))"
  by (cases f)
    (simp_all add: sampleForm_def Number_140 Number_20 Number_samples Number_fractions)

lemma otherForm_valid:
  "getField otherForm f \<noteq> [] \<and> \<not> isNaN (Number (getField otherForm f))"
  by (cases f)
    (simp_all add: otherForm_def Number_140 Number_20 Number_samples Number_fractions)

lemma run_fillForm:
  "run ts s (fillForm fd) = s\<lparr>formData := fd\<rparr>"
  by (cases s; cases fd; cases "formData s")
    (simp add: fillForm_def requiredFields_def run_def handleInputChange_def)

subsection \<open>The field names shown to the user\<close>

lemma spaced:
  "spaceBeforeUpper ''pregnancies'' = ''pregnancies''"
  "spaceBeforeUpper ''glucose'' = ''glucose''"
  "spaceBeforeUpper ''bloodPressure'' = ''blood Pressure''"
  "spaceBeforeUpper ''skinThickness'' = ''skin Thickness''"
  "spaceBeforeUpper ''insulin'' = ''insulin''"
  "spaceBeforeUpper ''bmi'' = ''bmi''"
  "spaceBeforeUpper ''diabetesPedigree'' = ''diabetes Pedigree''"
  "spaceBeforeUpper ''age'' = ''age''"
  by (simp_all add: spaceBeforeUpper_def isUpperAZ_def)

lemma lowered:
  "toLowerCase ''pregnancies'' = ''pregnancies''"
  "toLowerCase ''glucose'' = ''glucose''"
  "toLowerCase ''blood Pressure'' = ''blood pressure''"
  "toLowerCase ''skin Thickness'' = ''skin thickness''"
  "toLowerCase ''insulin'' = ''insulin''"
  "toLowerCase ''bmi'' = ''bmi''"
  "toLowerCase ''diabetes Pedigree'' = ''diabetes pedigree''"
  "toLowerCase ''age'' = ''age''"
  by (simp_all add: toLowerCase_def toLowerCaseChar_def char_of_eq_iff Let_def)

lemma humanName:
  "toLowerCase (spaceBeforeUpper (keyName pregnancies_key)) = ''pregnancies''"
  "toLowerCase (spaceBeforeUpper (keyName glucose_key)) = ''glucose''"
  "toLowerCase (spaceBeforeUpper (keyName bloodPressure_key)) = ''blood pressure''"
  "toLowerCase (spaceBeforeUpper (keyName skinThickness_key)) = ''skin thickness''"
  "toLowerCase (spaceBeforeUpper (keyName insulin_key)) = ''insulin''"
  "toLowerCase (spaceBeforeUpper (keyName bmi_key)) = ''bmi''"
  "toLowerCase (spaceBeforeUpper (keyName diabetesPedigree_key)) = ''diabetes pedigree''"
  "toLowerCase (spaceBeforeUpper (keyName age_key)) = ''age''"
  by (simp_all only: keyName.simps spaced lowered)

lemma humanNames:
  "map (\<lambda>f. toLowerCase (spaceBeforeUpper (keyName f))) requiredFields =
     [''pregnancies'', ''glucose'', ''blood pressure'', ''skin thickness'', ''insulin'',
      ''bmi'', ''diabetes pedigree'', ''age'']"
  by (simp add: requiredFields_def spaced lowered)

subsection \<open>A submission from a reachable state\<close>

lemma reachable_submission_result:
  assumes "s = run ts initialState evs" and "\<not> isSubmitting s"
    and "\<forall>f. getField (formData s) f \<noteq> [] \<and> \<not> isNaN (Number (getField (formData s) f))"
    and "TimeoutFires \<notin> set between"
  shows "result (step ts (run ts (step ts s SubmitClick) between) TimeoutFires)
         = outcome (formData s)"
proof -
  have inv: "invariant s" using assms(1) by (simp add: invariant_reachable)
  have ok: "fst (validateForm s)" using assms(3) by (simp add: validateForm_ok_iff)
  show ?thesis
    unfolding submission_completes [OF inv assms(2) ok assms(4), of ts] by simp
qed


subsection \<open>Firing the timeout, and the sample submission\<close>

lemma fire_pending:
  assumes "invariant s" and "isSubmitting s"
  shows "step ts s TimeoutFires =
         s\<lparr>timeouts := [], result := outcome (closedOver (hd (timeouts s))), isSubmitting := False\<rparr>"
proof -
  obtain t where t: "timeouts s = [t]"
    using assms by (cases "timeouts s") (auto simp: invariant_def)
  show ?thesis by (simp add: t timeoutCallback_def outcome_def Let_def)
qed

lemma outcome_populated:
  "prediction (outcome fd) \<noteq> None \<and> message (outcome fd) \<noteq> []
   \<and> (prediction (outcome fd) = Some positive \<or> prediction (outcome fd) = Some negative)"
  by (simp add: outcome_def positiveMessage_def negativeMessage_def)

lemma sample_pending:
  "run ts initialState (fillForm sampleForm @ [SubmitClick]) =
     initialState\<lparr>formData := sampleForm, isSubmitting := True,
       timeouts := [\<lparr>delay = 1500, closedOver = sampleForm\<rparr>]\<rparr>"
proof -
  let ?s0 = "run ts initialState (fillForm sampleForm)"
  have fd: "formData ?s0 = sampleForm" and idle: "\<not> isSubmitting ?s0"
    by (simp_all add: run_fillForm initialState_def)
  have inv: "invariant ?s0" by (rule invariant_reachable)
  have ok: "fst (validateForm ?s0)"
    unfolding validateForm_ok_iff fd using sampleForm_valid by simp
  have "run ts initialState (fillForm sampleForm @ [SubmitClick]) = step ts ?s0 SubmitClick"
    by (simp add: run_append run_Cons run_Nil)
  also have "\<dots> = initialState\<lparr>formData := sampleForm, isSubmitting := True,
       timeouts := [\<lparr>delay = 1500, closedOver = sampleForm\<rparr>]\<rparr>"
    unfolding submit_starts [OF inv idle ok] fd
    by (simp add: run_fillForm initialState_def)
  finally show ?thesis .
qed

lemma sample_completed:
  "run ts initialState (fillForm sampleForm @ [SubmitClick, TimeoutFires]) =
     initialState\<lparr>formData := sampleForm,
       result := \<lparr>prediction = Some negative, message = negativeMessage\<rparr>\<rparr>"
proof -
  let ?s0 = "run ts initialState (fillForm sampleForm)"
  have fd: "formData ?s0 = sampleForm" and idle: "\<not> isSubmitting ?s0"
    by (simp_all add: run_fillForm initialState_def)
  have inv: "invariant ?s0" by (rule invariant_reachable)
  have ok: "fst (validateForm ?s0)"
    unfolding validateForm_ok_iff fd using sampleForm_valid by simp
  have nt: "TimeoutFires \<notin> set []" by simp
  have o: "outcome sampleForm = \<lparr>prediction = Some negative, message = negativeMessage\<rparr>"
    by (simp add: outcome_def sampleForm_def Number_140 Number_20)
  have "run ts initialState (fillForm sampleForm @ [SubmitClick, TimeoutFires])
        = step ts (run ts (step ts ?s0 SubmitClick) []) TimeoutFires"
    by (simp add: run_append run_Cons run_Nil)
  also have "\<dots> = (run ts (step ts ?s0 SubmitClick) [])
           \<lparr>timeouts := [], result := outcome (formData ?s0), isSubmitting := False\<rparr>"
    by (rule submission_completes [OF inv idle ok nt])
  also have "\<dots> = initialState\<lparr>formData := sampleForm,
       result := \<lparr>prediction = Some negative, message = negativeMessage\<rparr>\<rparr>"
    unfolding run_Nil submit_starts [OF inv idle ok] fd o
    by (simp add: run_fillForm initialState_def)
  finally show ?thesis .
qed

lemma handlePredict_has_no_guard:
  "timeouts (handlePredict (run ts initialState (fillForm sampleForm @ [SubmitClick]))) =
     [\<lparr>delay = 1500, closedOver = sampleForm\<rparr>, \<lparr>delay = 1500, closedOver = sampleForm\<rparr>]"
proof -
  let ?s = "run ts initialState (fillForm sampleForm @ [SubmitClick])"
  have fd: "formData ?s = sampleForm"
    and ts: "timeouts ?s = [\<lparr>delay = 1500, closedOver = sampleForm\<rparr>]"
    unfolding sample_pending by simp_all
  have ok: "fst (validateForm ?s)"
    unfolding validateForm_ok_iff fd using sampleForm_valid by simp
  show ?thesis
    unfolding handlePredict_ok [OF ok] by (simp add: ts fd)
qed

section \<open>The claims\<close>

subsection \<open>C1: the prediction rule\<close>

text \<open>
  C1. Take any state the component can reach in which no submission is pending and all
  eight fields validate as numeric (each is non-empty and \<^verbatim>\<open>Number\<close> of it is not NaN).
  Click the submit button, let anything but the timeout happen in between (edits of the
  fields, further clicks), then let the timeout fire. The stored result is \<open>positive\<close>
  with the advisory message (``Please consult a healthcare professional'') when the
  parsed glucose is strictly greater than 140 or the parsed bmi strictly greater than 30,
  and \<open>negative\<close> with the reassuring message otherwise; the values are those of the
  fields when the button was clicked. In particular a glucose that parses to exactly 140
  with a bmi that parses to 20 gives \<open>negative\<close>: the comparison is strict.
\<close>

theorem prediction_rule:
  assumes "s = run toString initialState evs"
    and "\<not> isSubmitting s"
    and "\<forall>f. getField (formData s) f \<noteq> [] \<and> \<not> isNaN (Number (getField (formData s) f))"
    and "TimeoutFires \<notin> set between"
  shows "result (step toString (run toString (step toString s SubmitClick) between) TimeoutFires) =
           (if numberGreaterThan (Number (glucose (formData s))) (Finite 140)
               \<or> numberGreaterThan (Number (bmi (formData s))) (Finite 30)
            then \<lparr>prediction = Some positive,
                  message = ''Based on your inputs, there may be an increased risk. Please consult a healthcare professional.''\<rparr>
            else \<lparr>prediction = Some negative,
                  message = ''Based on your inputs, your risk appears to be lower. Continue maintaining a healthy lifestyle!''\<rparr>)
         \<and> (Number (glucose (formData s)) = Finite 140 \<and> Number (bmi (formData s)) = Finite 20
              \<longrightarrow> prediction (result (step toString (run toString (step toString s SubmitClick) between) TimeoutFires))
                    = Some negative)"
proof -
  have inv: "invariant s" using assms(1) by (simp add: invariant_reachable)
  have ok: "fst (validateForm s)" using assms(3) by (simp add: validateForm_ok_iff)
  note c = submission_completes [OF inv assms(2) ok assms(4), of toString]
  show ?thesis
    unfolding c by (simp add: outcome_def positiveMessage_def negativeMessage_def)
qed

text \<open>
  The form filled with glucose \<^verbatim>\<open>140\<close> and bmi \<^verbatim>\<open>20\<close>, submitted, the glucose field
  overwritten with \<^verbatim>\<open>999\<close> during the delay: the result is \<open>negative\<close>.
\<close>

theorem prediction_rule_witness:
  "\<not> isSubmitting (run sampleToString initialState (fillForm sampleForm))
   \<and> glucose (formData (run sampleToString initialState (fillForm sampleForm))) = ''140''
   \<and> bmi (formData (run sampleToString initialState (fillForm sampleForm))) = ''20''
   \<and> result (step sampleToString
        (run sampleToString
          (step sampleToString (run sampleToString initialState (fillForm sampleForm)) SubmitClick)
          [InputChange glucose_key ''999''])
        TimeoutFires)
      = \<lparr>prediction = Some negative, message = negativeMessage\<rparr>"
proof -
  let ?s = "run sampleToString initialState (fillForm sampleForm)"
  have fd: "formData ?s = sampleForm" and idle: "\<not> isSubmitting ?s"
    by (simp_all add: run_fillForm initialState_def)
  have valid: "\<forall>f. getField (formData ?s) f \<noteq> [] \<and> \<not> isNaN (Number (getField (formData ?s) f))"
    using sampleForm_valid by (simp add: fd)
  have nt: "TimeoutFires \<notin> set [InputChange glucose_key ''999'']" by simp
  note p = prediction_rule [OF refl idle valid nt, THEN conjunct1]
  have r: "result (step sampleToString
        (run sampleToString (step sampleToString ?s SubmitClick) [InputChange glucose_key ''999''])
        TimeoutFires)
      = \<lparr>prediction = Some negative, message = negativeMessage\<rparr>"
    unfolding p fd by (simp add: sampleForm_def Number_140 Number_20 negativeMessage_def)
  have g: "glucose (formData ?s) = ''140''" and b: "bmi (formData ?s) = ''20''"
    unfolding fd by (simp_all add: sampleForm_def)
  show ?thesis using idle g b r by (intro conjI)
qed

subsection \<open>C2: the six other fields do not matter\<close>

text \<open>
  C2. Take two submissions, each made from a reachable state with no submission pending
  and all eight fields valid, each followed by anything but its timeout and then by its
  timeout. If the two forms agree on the glucose string and on the bmi string, the two
  stored results (prediction and message) are equal, whatever the six other fields hold
  and whatever happened before or in between. The same holds as soon as the parsed glucose
  values agree and the parsed bmi values agree: the result is a function of these two
  numbers alone, so submitting the same valid input again gives the same prediction.
\<close>

theorem prediction_depends_only_on_glucose_and_bmi:
  assumes "s = run toString initialState evs" and "s' = run toString' initialState evs'"
    and "\<not> isSubmitting s" and "\<not> isSubmitting s'"
    and "\<forall>f. getField (formData s) f \<noteq> [] \<and> \<not> isNaN (Number (getField (formData s) f))"
    and "\<forall>f. getField (formData s') f \<noteq> [] \<and> \<not> isNaN (Number (getField (formData s') f))"
    and "TimeoutFires \<notin> set between" and "TimeoutFires \<notin> set between'"
  shows "(glucose (formData s) = glucose (formData s') \<and> bmi (formData s) = bmi (formData s')
           \<longrightarrow> result (step toString (run toString (step toString s SubmitClick) between) TimeoutFires)
               = result (step toString' (run toString' (step toString' s' SubmitClick) between') TimeoutFires))
         \<and> (Number (glucose (formData s)) = Number (glucose (formData s'))
             \<and> Number (bmi (formData s)) = Number (bmi (formData s'))
           \<longrightarrow> result (step toString (run toString (step toString s SubmitClick) between) TimeoutFires)
               = result (step toString' (run toString' (step toString' s' SubmitClick) between') TimeoutFires))"
  unfolding reachable_submission_result [OF assms(1,3,5,7)]
    reachable_submission_result [OF assms(2,4,6,8)]
  by (simp add: outcome_def)

text \<open>Two forms with glucose \<^verbatim>\<open>140\<close> and bmi \<^verbatim>\<open>20\<close> that differ in the other six fields.\<close>

theorem prediction_depends_only_on_glucose_and_bmi_witness:
  "pregnancies sampleForm \<noteq> pregnancies otherForm
   \<and> age sampleForm \<noteq> age otherForm
   \<and> glucose sampleForm = glucose otherForm
   \<and> bmi sampleForm = bmi otherForm
   \<and> result (step sampleToString
        (run sampleToString
          (step sampleToString (run sampleToString initialState (fillForm sampleForm)) SubmitClick) [])
        TimeoutFires)
     = result (step sampleToString
        (run sampleToString
          (step sampleToString (run sampleToString initialState (fillForm otherForm)) SubmitClick)
          [SubmitClick])
        TimeoutFires)"
proof -
  let ?s = "run sampleToString initialState (fillForm sampleForm)"
  let ?s' = "run sampleToString initialState (fillForm otherForm)"
  have fd: "formData ?s = sampleForm" "formData ?s' = otherForm"
    and idle: "\<not> isSubmitting ?s" "\<not> isSubmitting ?s'"
    by (simp_all add: run_fillForm initialState_def)
  have v: "\<forall>f. getField (formData ?s) f \<noteq> [] \<and> \<not> isNaN (Number (getField (formData ?s) f))"
    unfolding fd using sampleForm_valid by simp
  have v': "\<forall>f. getField (formData ?s') f \<noteq> [] \<and> \<not> isNaN (Number (getField (formData ?s') f))"
    unfolding fd using otherForm_valid by simp
  have nt: "TimeoutFires \<notin> set []" "TimeoutFires \<notin> set [SubmitClick]" by simp_all
  have same: "glucose (formData ?s) = glucose (formData ?s') \<and> bmi (formData ?s) = bmi (formData ?s')"
    unfolding fd by (simp add: sampleForm_def otherForm_def)
  note p = prediction_depends_only_on_glucose_and_bmi
    [OF refl refl idle(1) idle(2) v v' nt(1) nt(2), THEN conjunct1, rule_format, OF same]
  have d: "pregnancies sampleForm \<noteq> pregnancies otherForm" "age sampleForm \<noteq> age otherForm"
    "glucose sampleForm = glucose otherForm" "bmi sampleForm = bmi otherForm"
    by (simp_all add: sampleForm_def otherForm_def)
  show ?thesis using d p by (intro conjI)
qed

subsection \<open>C3: validation stops at the first failing field\<close>

text \<open>
  C3. Validation goes through the eight fields in the fixed order pregnancies, glucose,
  bloodPressure, skinThickness, insulin, bmi, diabetesPedigree, age. It fails exactly when
  some field is empty or \<^verbatim>\<open>Number\<close> of its string is NaN; when it succeeds it shows
  nothing. When it fails, the outcome is settled by the first failing field and the fields
  before it alone: whatever the fields after it hold, exactly one toast is added, titled
  ``Validation Error'', whose description ends with the de-camel-cased, lower-cased key of
  that first failing field (``blood pressure'' for \<^verbatim>\<open>bloodPressure\<close>), and the answer is
  \<^verbatim>\<open>false\<close>.
\<close>

theorem validateForm_first_failing_field:
  "requiredFields =
     [pregnancies_key, glucose_key, bloodPressure_key, skinThickness_key,
      insulin_key, bmi_key, diabetesPedigree_key, age_key]
   \<and> (\<not> fst (validateForm s) \<longleftrightarrow>
        (\<exists>f. getField (formData s) f = [] \<or> isNaN (Number (getField (formData s) f))))
   \<and> (fst (validateForm s) \<longrightarrow> validateForm s = (True, s))
   \<and> (\<forall>before f after.
         requiredFields = before @ f # after
         \<and> (\<forall>g \<in> set before.
               getField (formData s) g \<noteq> [] \<and> \<not> isNaN (Number (getField (formData s) g)))
         \<and> (getField (formData s) f = [] \<or> isNaN (Number (getField (formData s) f)))
         \<longrightarrow> validateForm s =
               (False,
                s\<lparr>toasts := toasts s @
                   [\<lparr>title = ''Validation Error'',
                     description = ''Please enter a valid number for ''
                        @ toLowerCase (spaceBeforeUpper (keyName f)),
                     variant = ''destructive''\<rparr>]\<rparr>))
   \<and> map (\<lambda>f. toLowerCase (spaceBeforeUpper (keyName f))) requiredFields =
       [''pregnancies'', ''glucose'', ''blood pressure'', ''skin thickness'', ''insulin'',
        ''bmi'', ''diabetes pedigree'', ''age'']"
proof (intro conjI allI impI)
  show "requiredFields =
     [pregnancies_key, glucose_key, bloodPressure_key, skinThickness_key,
      insulin_key, bmi_key, diabetesPedigree_key, age_key]"
    by (simp add: requiredFields_def)
next
  show "(\<not> fst (validateForm s)) =
        (\<exists>f. getField (formData s) f = [] \<or> isNaN (Number (getField (formData s) f)))"
    by (auto simp: validateForm_ok_iff)
next
  assume "fst (validateForm s)"
  then show "validateForm s = (True, s)" by (rule validateForm_ok)
next
  fix before f after
  assume h: "requiredFields = before @ f # after
         \<and> (\<forall>g \<in> set before.
               getField (formData s) g \<noteq> [] \<and> \<not> isNaN (Number (getField (formData s) g)))
         \<and> (getField (formData s) f = [] \<or> isNaN (Number (getField (formData s) f)))"
  then have "validateLoop (formData s) requiredFields = Some (validationToast f)"
    using validateLoop_first_failure [of before "formData s" f after] by simp
  then show "validateForm s =
               (False,
                s\<lparr>toasts := toasts s @
                   [\<lparr>title = ''Validation Error'',
                     description = ''Please enter a valid number for ''
                        @ toLowerCase (spaceBeforeUpper (keyName f)),
                     variant = ''destructive''\<rparr>]\<rparr>)"
    by (simp add: validateForm_def validationToast_def)
next
  show "map (\<lambda>f. toLowerCase (spaceBeforeUpper (keyName f))) requiredFields =
       [''pregnancies'', ''glucose'', ''blood pressure'', ''skin thickness'', ''insulin'',
        ''bmi'', ''diabetes pedigree'', ''age'']"
    by (rule humanNames)
qed

text \<open>
  A form whose third field holds \<^verbatim>\<open>12px\<close> and whose fifth field is empty: the one toast
  names the blood pressure.
\<close>

theorem validateForm_first_failing_field_witness:
  "validateForm (initialState\<lparr>formData := faultyForm\<rparr>) =
     (False,
      initialState\<lparr>formData := faultyForm,
        toasts := [\<lparr>title = ''Validation Error'',
                   description = ''Please enter a valid number for blood pressure'',
                   variant = ''destructive''\<rparr>]\<rparr>)"
proof -
  let ?s = "initialState\<lparr>formData := faultyForm\<rparr>"
  have rf: "requiredFields = [pregnancies_key, glucose_key] @ bloodPressure_key #
      [skinThickness_key, insulin_key, bmi_key, diabetesPedigree_key, age_key]"
    by (simp add: requiredFields_def)
  have before: "\<forall>g \<in> set [pregnancies_key, glucose_key].
      getField (formData ?s) g \<noteq> [] \<and> \<not> isNaN (Number (getField (formData ?s) g))"
    by (simp add: faultyForm_def sampleForm_def Number_140 Number_samples)
  have bad: "getField (formData ?s) bloodPressure_key = []
      \<or> isNaN (Number (getField (formData ?s) bloodPressure_key))"
    by (simp add: faultyForm_def sampleForm_def Number_12px)
  from validateForm_first_failing_field [of ?s]
  have "\<forall>before f after.
         requiredFields = before @ f # after
         \<and> (\<forall>g \<in> set before.
               getField (formData ?s) g \<noteq> [] \<and> \<not> isNaN (Number (getField (formData ?s) g)))
         \<and> (getField (formData ?s) f = [] \<or> isNaN (Number (getField (formData ?s) f)))
         \<longrightarrow> validateForm ?s =
               (False,
                ?s\<lparr>toasts := toasts ?s @
                   [\<lparr>title = ''Validation Error'',
                     description = ''Please enter a valid number for ''
                        @ toLowerCase (spaceBeforeUpper (keyName f)),
                     variant = ''destructive''\<rparr>]\<rparr>)"
    by blast
  with rf before bad have "validateForm ?s =
               (False,
                ?s\<lparr>toasts := toasts ?s @
                   [\<lparr>title = ''Validation Error'',
                     description = ''Please enter a valid number for ''
                        @ toLowerCase (spaceBeforeUpper (keyName bloodPressure_key)),
                     variant = ''destructive''\<rparr>]\<rparr>)"
    by blast
  then show ?thesis
    by (simp add: initialState_def spaced lowered)
qed

subsection \<open>C4: a failed validation changes nothing but the toasts\<close>




subsection \<open>C5: what a successful validation guarantees\<close>

text \<open>
  C5, as amended. When validation succeeds, every one of the eight field strings is
  non-empty and parses to a number that is not NaN: a finite number, \<^verbatim>\<open>Infinity\<close> or
  \<^verbatim>\<open>-Infinity\<close>. The check is \<^verbatim>\<open>isNaN\<close>, which the infinities pass.
\<close>

theorem validation_success_excludes_NaN_only:
  "fst (validateForm s) \<longrightarrow>
     (\<forall>f. getField (formData s) f \<noteq> []
          \<and> \<not> isNaN (Number (getField (formData s) f))
          \<and> (isFinite (Number (getField (formData s) f))
               \<or> Number (getField (formData s) f) = PosInfinity
               \<or> Number (getField (formData s) f) = NegInfinity))"
proof (intro impI allI)
  fix f
  assume "fst (validateForm s)"
  then have "getField (formData s) f \<noteq> [] \<and> \<not> isNaN (Number (getField (formData s) f))"
    by (simp add: validateForm_ok_iff)
  then show "getField (formData s) f \<noteq> []
          \<and> \<not> isNaN (Number (getField (formData s) f))
          \<and> (isFinite (Number (getField (formData s) f))
               \<or> Number (getField (formData s) f) = PosInfinity
               \<or> Number (getField (formData s) f) = NegInfinity)"
    by (cases "Number (getField (formData s) f)") simp_all
qed

text \<open>The sample form passes validation; its glucose field is non-empty and not NaN.\<close>

theorem validation_success_excludes_NaN_only_witness:
  "fst (validateForm (run sampleToString initialState (fillForm sampleForm)))
   \<and> getField (formData (run sampleToString initialState (fillForm sampleForm))) glucose_key \<noteq> []
   \<and> \<not> isNaN (Number (getField (formData (run sampleToString initialState (fillForm sampleForm))) glucose_key))"
proof -
  let ?s = "run sampleToString initialState (fillForm sampleForm)"
  have fd: "formData ?s = sampleForm" by (simp add: run_fillForm)
  have ok: "fst (validateForm ?s)"
    unfolding validateForm_ok_iff fd using sampleForm_valid by simp
  from validation_success_excludes_NaN_only [of ?s, rule_format, OF ok, of glucose_key]
  show ?thesis using ok by blast
qed

text \<open>
  C5 as stated fails: type \<^verbatim>\<open>Infinity\<close> into glucose and \<^verbatim>\<open>2e308\<close> into bmi, the other
  fields as in the sample. Validation succeeds, and neither of the two parses to a finite
  number.
\<close>

theorem validation_accepts_infinite_values:
  "fst (validateForm (run sampleToString initialState (fillForm infiniteForm)))
   \<and> Number (glucose (formData (run sampleToString initialState (fillForm infiniteForm)))) = PosInfinity
   \<and> Number (bmi (formData (run sampleToString initialState (fillForm infiniteForm)))) = PosInfinity
   \<and> \<not> isFinite (Number (glucose (formData (run sampleToString initialState (fillForm infiniteForm)))))
   \<and> \<not> isFinite (Number (bmi (formData (run sampleToString initialState (fillForm infiniteForm)))))"
proof -
  let ?s = "run sampleToString initialState (fillForm infiniteForm)"
  have fd: "formData ?s = infiniteForm" by (simp add: run_fillForm)
  have "getField infiniteForm f \<noteq> [] \<and> \<not> isNaN (Number (getField infiniteForm f))" for f
    by (cases f)
      (simp_all add: infiniteForm_def sampleForm_def Number_Infinity Number_2e308 Number_samples
        Number_fractions Number_20)
  then have ok: "fst (validateForm ?s)"
    unfolding validateForm_ok_iff fd by simp
  have g: "Number (glucose (formData ?s)) = PosInfinity"
    unfolding fd by (simp add: infiniteForm_def Number_Infinity)
  have b: "Number (bmi (formData ?s)) = PosInfinity"
    unfolding fd by (simp add: infiniteForm_def Number_2e308)
  show ?thesis using ok g b by simp
qed

subsection \<open>C6: the life of a submission\<close>

text \<open>
  C6. Take a reachable state with no submission pending and all eight fields valid, and
  click the submit button. At once the result is \<^verbatim>\<open>{ prediction: null, message: "" }\<close>
  (whatever it was), \<^verbatim>\<open>isSubmitting\<close> is true, and one timeout of 1500 ms is pending, over
  the form data of the click; the form data and the toasts are as before. This stays so
  through whatever happens before the timeout fires. When it fires, the result holds a
  prediction that is not null, \<^verbatim>\<open>isSubmitting\<close> is false again and no timeout is pending.
\<close>

theorem submission_lifecycle:
  assumes "s = run toString initialState evs"
    and "\<not> isSubmitting s"
    and "\<forall>f. getField (formData s) f \<noteq> [] \<and> \<not> isNaN (Number (getField (formData s) f))"
    and "TimeoutFires \<notin> set between"
  shows "result (step toString s SubmitClick) = \<lparr>prediction = None, message = ''''\<rparr>
       \<and> isSubmitting (step toString s SubmitClick)
       \<and> timeouts (step toString s SubmitClick) = [\<lparr>delay = 1500, closedOver = formData s\<rparr>]
       \<and> formData (step toString s SubmitClick) = formData s
       \<and> toasts (step toString s SubmitClick) = toasts s
       \<and> result (run toString (step toString s SubmitClick) between)
           = \<lparr>prediction = None, message = ''''\<rparr>
       \<and> isSubmitting (run toString (step toString s SubmitClick) between)
       \<and> prediction (result (step toString (run toString (step toString s SubmitClick) between)
             TimeoutFires)) \<noteq> None
       \<and> \<not> isSubmitting (step toString (run toString (step toString s SubmitClick) between)
             TimeoutFires)
       \<and> timeouts (step toString (run toString (step toString s SubmitClick) between)
             TimeoutFires) = []"
proof -
  have inv: "invariant s" using assms(1) by (simp add: invariant_reachable)
  have ok: "fst (validateForm s)" using assms(3) by (simp add: validateForm_ok_iff)
  note s1 = submit_starts [OF inv assms(2) ok, of toString]
  have sub: "isSubmitting (step toString s SubmitClick)" unfolding s1 by simp
  note during = pending_run [OF sub assms(4), of toString]
  note fin = submission_completes [OF inv assms(2) ok assms(4), of toString]
  have a: "result (step toString s SubmitClick) = \<lparr>prediction = None, message = ''''\<rparr>"
    "timeouts (step toString s SubmitClick) = [\<lparr>delay = 1500, closedOver = formData s\<rparr>]"
    "formData (step toString s SubmitClick) = formData s"
    "toasts (step toString s SubmitClick) = toasts s"
    unfolding s1 by simp_all
  have b: "result (run toString (step toString s SubmitClick) between)
           = \<lparr>prediction = None, message = ''''\<rparr>"
    "isSubmitting (run toString (step toString s SubmitClick) between)"
    using during a(1) by simp_all
  have c: "prediction (result (step toString (run toString (step toString s SubmitClick) between)
             TimeoutFires)) \<noteq> None"
    "\<not> isSubmitting (step toString (run toString (step toString s SubmitClick) between)
             TimeoutFires)"
    "timeouts (step toString (run toString (step toString s SubmitClick) between)
             TimeoutFires) = []"
    unfolding fin by (simp_all add: outcome_def)
  show ?thesis using a sub b c by (intro conjI)
qed

text \<open>
  A second submission of the sample form, after a first one has stored \<open>negative\<close>: the
  click clears the result, the timeout stores a prediction again.
\<close>

theorem submission_lifecycle_witness:
  "prediction (result (run sampleToString initialState
       (fillForm sampleForm @ [SubmitClick, TimeoutFires]))) = Some negative
   \<and> result (step sampleToString
        (run sampleToString initialState (fillForm sampleForm @ [SubmitClick, TimeoutFires]))
        SubmitClick) = \<lparr>prediction = None, message = ''''\<rparr>
   \<and> isSubmitting (step sampleToString
        (run sampleToString initialState (fillForm sampleForm @ [SubmitClick, TimeoutFires]))
        SubmitClick)
   \<and> timeouts (step sampleToString
        (run sampleToString initialState (fillForm sampleForm @ [SubmitClick, TimeoutFires]))
        SubmitClick) = [\<lparr>delay = 1500, closedOver = sampleForm\<rparr>]
   \<and> prediction (result (step sampleToString
        (run sampleToString
          (step sampleToString
            (run sampleToString initialState (fillForm sampleForm @ [SubmitClick, TimeoutFires]))
            SubmitClick)
          [InputChange age_key ''33''])
        TimeoutFires)) \<noteq> None
   \<and> \<not> isSubmitting (step sampleToString
        (run sampleToString
          (step sampleToString
            (run sampleToString initialState (fillForm sampleForm @ [SubmitClick, TimeoutFires]))
            SubmitClick)
          [InputChange age_key ''33''])
        TimeoutFires)"
proof -
  let ?s = "run sampleToString initialState (fillForm sampleForm @ [SubmitClick, TimeoutFires])"
  have fd: "formData ?s = sampleForm" and idle: "\<not> isSubmitting ?s"
    and prev: "prediction (result ?s) = Some negative"
    unfolding sample_completed by (simp_all add: initialState_def)
  have v: "\<forall>f. getField (formData ?s) f \<noteq> [] \<and> \<not> isNaN (Number (getField (formData ?s) f))"
    unfolding fd using sampleForm_valid by simp
  have nt: "TimeoutFires \<notin> set [InputChange age_key ''33'']" by simp
  note l = submission_lifecycle [OF refl idle v nt, unfolded fd]
  show ?thesis using prev l by simp
qed

subsection \<open>C7: no two submissions overlap\<close>

text \<open>
  C7. In every reachable state: a click on the submit button while \<^verbatim>\<open>isSubmitting\<close> is true
  leaves the whole state as it is (no new timeout among the rest); at most one timeout is
  pending, and one is pending exactly while \<^verbatim>\<open>isSubmitting\<close> is true. Once a submission is
  pending, nothing but the firing of its timeout ends it: after any events other than
  that, \<^verbatim>\<open>isSubmitting\<close> is still true and the same timeout is still pending; and when the
  timeout fires, \<^verbatim>\<open>isSubmitting\<close> turns false, the result holds a prediction, and nothing is
  pending. The click is ignored by the disabled button, modelled by \<open>Button_click\<close>;
  \<^verbatim>\<open>handlePredict\<close> has no guard of its own (\<open>handlePredict_has_no_guard\<close>).
\<close>

theorem no_overlapping_submissions:
  assumes "s = run toString initialState evs"
  shows "(isSubmitting s \<longrightarrow> step toString s SubmitClick = s)
       \<and> length (timeouts s) \<le> 1
       \<and> (isSubmitting s \<longleftrightarrow> timeouts s \<noteq> [])
       \<and> (isSubmitting s \<and> TimeoutFires \<notin> set later \<longrightarrow>
            isSubmitting (run toString s later)
            \<and> timeouts (run toString s later) = timeouts s
            \<and> \<not> isSubmitting (step toString (run toString s later) TimeoutFires)
            \<and> prediction (result (step toString (run toString s later) TimeoutFires)) \<noteq> None
            \<and> timeouts (step toString (run toString s later) TimeoutFires) = [])"
proof (intro conjI impI)
  have inv: "invariant s" using assms by (simp add: invariant_reachable)
  show "length (timeouts s) \<le> 1" using inv by (simp add: invariant_def split: if_splits)
  show "isSubmitting s \<longleftrightarrow> timeouts s \<noteq> []"
    using inv by (auto simp: invariant_def split: if_splits)
  {
    assume "isSubmitting s"
    then show "step toString s SubmitClick = s" by (simp add: Button_click_def)
  }
  {
    assume h: "isSubmitting s \<and> TimeoutFires \<notin> set later"
    then have p: "isSubmitting (run toString s later)" "timeouts (run toString s later) = timeouts s"
      using pending_run [of s later toString] by simp_all
    have inv': "invariant (run toString s later)" using inv by (rule invariant_run)
    note f = fire_pending [OF inv' p(1), of toString]
    show "isSubmitting (run toString s later)" by (rule p(1))
    show "timeouts (run toString s later) = timeouts s" by (rule p(2))
    show "\<not> isSubmitting (step toString (run toString s later) TimeoutFires)"
      unfolding f by simp
    show "prediction (result (step toString (run toString s later) TimeoutFires)) \<noteq> None"
      unfolding f using outcome_populated by simp
    show "timeouts (step toString (run toString s later) TimeoutFires) = []"
      unfolding f by simp
  }
qed

text \<open>
  The sample form, submitted: a second click changes nothing, a click and an edit leave
  the timeout pending, and its firing ends the submission with a prediction.
\<close>

theorem no_overlapping_submissions_witness:
  "isSubmitting (run sampleToString initialState (fillForm sampleForm @ [SubmitClick]))
   \<and> step sampleToString (run sampleToString initialState (fillForm sampleForm @ [SubmitClick]))
        SubmitClick
       = run sampleToString initialState (fillForm sampleForm @ [SubmitClick])
   \<and> timeouts (run sampleToString
        (run sampleToString initialState (fillForm sampleForm @ [SubmitClick]))
        [SubmitClick, InputChange glucose_key ''200''])
       = [\<lparr>delay = 1500, closedOver = sampleForm\<rparr>]
   \<and> \<not> isSubmitting (step sampleToString
        (run sampleToString
          (run sampleToString initialState (fillForm sampleForm @ [SubmitClick]))
          [SubmitClick, InputChange glucose_key ''200''])
        TimeoutFires)
   \<and> prediction (result (step sampleToString
        (run sampleToString
          (run sampleToString initialState (fillForm sampleForm @ [SubmitClick]))
          [SubmitClick, InputChange glucose_key ''200''])
        TimeoutFires)) \<noteq> None"
proof -
  let ?s = "run sampleToString initialState (fillForm sampleForm @ [SubmitClick])"
  have sub: "isSubmitting ?s"
    and ts: "timeouts ?s = [\<lparr>delay = 1500, closedOver = sampleForm\<rparr>]"
    unfolding sample_pending by simp_all
  have nt: "TimeoutFires \<notin> set [SubmitClick, InputChange glucose_key ''200'']" by simp
  note n = no_overlapping_submissions
    [OF refl, of sampleToString "fillForm sampleForm @ [SubmitClick]"
      "[SubmitClick, InputChange glucose_key ''200'']"]
  have 1: "step sampleToString ?s SubmitClick = ?s"
    using n sub by blast
  have 2: "timeouts (run sampleToString ?s [SubmitClick, InputChange glucose_key ''200''])
       = timeouts ?s"
    and 3: "\<not> isSubmitting (step sampleToString
        (run sampleToString ?s [SubmitClick, InputChange glucose_key ''200'']) TimeoutFires)"
    and 4: "prediction (result (step sampleToString
        (run sampleToString ?s [SubmitClick, InputChange glucose_key ''200'']) TimeoutFires)) \<noteq> None"
    using n sub nt by blast+
  show ?thesis using sub 1 2 3 4 unfolding ts by (intro conjI)
qed

subsection \<open>C8: validation does not look at the slider ranges\<close>

text \<open>
  C8. Validation succeeds exactly when every field is non-empty and \<^verbatim>\<open>Number\<close> of it is
  not NaN; the ranges of \<^verbatim>\<open>fieldRanges\<close> play no part. So whenever all eight fields hold
  a value that parses to a number (the spec sets the empty editing state apart from a
  field that parses to a number) and some value lies outside the \<open>[min, max]\<close> of its
  slider, validation still answers \<^verbatim>\<open>true\<close> without a toast and the submission starts.
\<close>

theorem validation_ignores_field_ranges:
  "(fst (validateForm s) \<longleftrightarrow>
      (\<forall>f. getField (formData s) f \<noteq> [] \<and> \<not> isNaN (Number (getField (formData s) f))))
   \<and> ((\<forall>f. getField (formData s) f \<noteq> [] \<and> \<not> isNaN (Number (getField (formData s) f)))
       \<and> (\<exists>f. \<not> withinRange (fieldRanges f) (Number (getField (formData s) f)))
      \<longrightarrow> validateForm s = (True, s)
          \<and> handlePredict s =
              s\<lparr>isSubmitting := True, result := \<lparr>prediction = None, message = ''''\<rparr>,
                timeouts := timeouts s @ [\<lparr>delay = 1500, closedOver = formData s\<rparr>]\<rparr>)"
proof (intro conjI impI)
  show "fst (validateForm s) \<longleftrightarrow>
      (\<forall>f. getField (formData s) f \<noteq> [] \<and> \<not> isNaN (Number (getField (formData s) f)))"
    by (rule validateForm_ok_iff)
next
  assume "(\<forall>f. getField (formData s) f \<noteq> [] \<and> \<not> isNaN (Number (getField (formData s) f)))
       \<and> (\<exists>f. \<not> withinRange (fieldRanges f) (Number (getField (formData s) f)))"
  then have ok: "fst (validateForm s)" by (simp add: validateForm_ok_iff)
  show "validateForm s = (True, s)" using ok by (rule validateForm_ok)
  show "handlePredict s =
              s\<lparr>isSubmitting := True, result := \<lparr>prediction = None, message = ''''\<rparr>,
                timeouts := timeouts s @ [\<lparr>delay = 1500, closedOver = formData s\<rparr>]\<rparr>"
    using ok by (rule handlePredict_ok)
qed

text \<open>Glucose \<^verbatim>\<open>1000\<close>, above the slider's maximum of 300, validates.\<close>

theorem validation_ignores_field_ranges_witness:
  "Number (getField (formData (run sampleToString initialState (fillForm outOfRangeForm))) glucose_key)
     = Finite 1000
   \<and> range_max (fieldRanges glucose_key) = Finite 300
   \<and> \<not> withinRange (fieldRanges glucose_key)
        (Number (getField (formData (run sampleToString initialState (fillForm outOfRangeForm)))
           glucose_key))
   \<and> validateForm (run sampleToString initialState (fillForm outOfRangeForm))
       = (True, run sampleToString initialState (fillForm outOfRangeForm))
   \<and> isSubmitting (handlePredict (run sampleToString initialState (fillForm outOfRangeForm)))
   \<and> toasts (handlePredict (run sampleToString initialState (fillForm outOfRangeForm))) = []"
proof -
  let ?s = "run sampleToString initialState (fillForm outOfRangeForm)"
  have fd: "formData ?s = outOfRangeForm" by (simp add: run_fillForm)
  have g: "Number (getField (formData ?s) glucose_key) = Finite 1000"
    unfolding fd by (simp add: outOfRangeForm_def Number_1000)
  have m: "range_max (fieldRanges glucose_key) = Finite 300" by simp
  have out: "\<not> withinRange (fieldRanges glucose_key) (Number (getField (formData ?s) glucose_key))"
    unfolding g by (simp add: withinRange_def)
  have "getField outOfRangeForm f \<noteq> [] \<and> \<not> isNaN (Number (getField outOfRangeForm f))" for f
    by (cases f)
      (simp_all add: outOfRangeForm_def sampleForm_def Number_1000 Number_20 Number_samples
        Number_fractions)
  then have v: "\<forall>f. getField (formData ?s) f \<noteq> [] \<and> \<not> isNaN (Number (getField (formData ?s) f))"
    unfolding fd by simp
  from out have ex: "\<exists>f. \<not> withinRange (fieldRanges f) (Number (getField (formData ?s) f))"
    by blast
  note w = validation_ignores_field_ranges [of ?s, THEN conjunct2, rule_format, OF conjI [OF v ex]]
  have 1: "validateForm ?s = (True, ?s)" using w by (rule conjunct1)
  have t0: "toasts ?s = []" by (simp add: run_fillForm initialState_def)
  have 2: "isSubmitting (handlePredict ?s)" "toasts (handlePredict ?s) = []"
    unfolding w [THEN conjunct2] using t0 by simp_all
  show ?thesis using g m out 1 2 by (intro conjI)
qed

subsection \<open>C9: field edits\<close>

text \<open>
  C9. An edit changes one field string and nothing else. After a text input of \<open>v\<close> into
  a field, that field reads \<open>v\<close>, each of the seven other fields reads what it read
  before, and \<^verbatim>\<open>result\<close>, \<^verbatim>\<open>isSubmitting\<close>, the toasts shown (no validation runs at edit
  time) and the pending timeouts are unchanged. A slider drag to the number \<open>n\<close> is the
  text input of the stringification of \<open>n\<close>.
\<close>

theorem field_edit_frame:
  "getField (formData (handleInputChange field v s)) field = v
   \<and> (\<forall>g. g \<noteq> field \<longrightarrow>
         getField (formData (handleInputChange field v s)) g = getField (formData s) g)
   \<and> result (handleInputChange field v s) = result s
   \<and> isSubmitting (handleInputChange field v s) = isSubmitting s
   \<and> toasts (handleInputChange field v s) = toasts s
   \<and> timeouts (handleInputChange field v s) = timeouts s
   \<and> handleSliderChange toString field (n # ns) s = Inr (handleInputChange field (toString n) s)
   \<and> step toString s (InputChange field v) = handleInputChange field v s
   \<and> step toString s (SliderChange field n) = handleInputChange field (toString n) s"
  by (simp add: handleInputChange_def handleSliderChange_def getField_setField)

text \<open>
  On the initial state: typing \<^verbatim>\<open>120\<close> into glucose leaves bmi empty and the result null;
  dragging the bmi slider to 50 is typing \<^verbatim>\<open>50\<close> into bmi.
\<close>

theorem field_edit_frame_witness:
  "getField (formData (handleInputChange glucose_key ''120'' initialState)) glucose_key = ''120''
   \<and> getField (formData (handleInputChange glucose_key ''120'' initialState)) bmi_key = ''''
   \<and> result (handleInputChange glucose_key ''120'' initialState) = \<lparr>prediction = None, message = ''''\<rparr>
   \<and> step sampleToString initialState (SliderChange bmi_key (Finite 50))
       = handleInputChange bmi_key ''50'' initialState"
  using field_edit_frame [where field = glucose_key and v = "''120''" and s = initialState
      and toString = sampleToString and n = "Finite 50" and ns = "[]"]
    field_edit_frame [where field = bmi_key and v = "''50''" and s = initialState
      and toString = sampleToString and n = "Finite 50" and ns = "[]"]
  by (simp add: initialState_def sampleToString_def handleInputChange_def handleSliderChange_def)

subsection \<open>C10: the result is populated as a whole\<close>

text \<open>
  C10. In every reachable state the prediction is null exactly when the message is empty.
  Whenever a timeout is pending, its firing leaves a prediction that is \<open>positive\<close> or
  \<open>negative\<close> together with a non-empty message. The callback writes both in one
  update: on any state at all, the result after it is one of the two complete pairs.
\<close>

theorem result_fully_populated:
  assumes "s = run toString initialState evs"
  shows "(prediction (result s) = None \<longleftrightarrow> message (result s) = [])
       \<and> (timeouts s \<noteq> [] \<longrightarrow>
            (prediction (result (step toString s TimeoutFires)) = Some positive
              \<or> prediction (result (step toString s TimeoutFires)) = Some negative)
            \<and> message (result (step toString s TimeoutFires)) \<noteq> [])
       \<and> (result (timeoutCallback fd s0) = \<lparr>prediction = Some positive, message = positiveMessage\<rparr>
           \<or> result (timeoutCallback fd s0) = \<lparr>prediction = Some negative, message = negativeMessage\<rparr>)
       \<and> positiveMessage \<noteq> [] \<and> negativeMessage \<noteq> []"
proof (intro conjI impI)
  have inv: "invariant s" using assms by (simp add: invariant_reachable)
  show "prediction (result s) = None \<longleftrightarrow> message (result s) = []"
    using inv by (auto simp: invariant_def resultOK_def positiveMessage_def negativeMessage_def)
  show "result (timeoutCallback fd s0) = \<lparr>prediction = Some positive, message = positiveMessage\<rparr>
           \<or> result (timeoutCallback fd s0) = \<lparr>prediction = Some negative, message = negativeMessage\<rparr>"
    by (simp add: timeoutCallback_def Let_def)
  show "positiveMessage \<noteq> []" "negativeMessage \<noteq> []"
    by (simp_all add: positiveMessage_def negativeMessage_def)
  {
    assume "timeouts s \<noteq> []"
    then have sub: "isSubmitting s" using inv by (auto simp: invariant_def split: if_splits)
    note f = fire_pending [OF inv sub, of toString]
    show "prediction (result (step toString s TimeoutFires)) = Some positive
              \<or> prediction (result (step toString s TimeoutFires)) = Some negative"
      unfolding f using outcome_populated by simp
    show "message (result (step toString s TimeoutFires)) \<noteq> []"
      unfolding f using outcome_populated by simp
  }
qed

text \<open>The sample form, submitted: null and empty while pending, both set once the timeout fired.\<close>

theorem result_fully_populated_witness:
  "timeouts (run sampleToString initialState (fillForm sampleForm @ [SubmitClick])) \<noteq> []
   \<and> prediction (result (run sampleToString initialState (fillForm sampleForm @ [SubmitClick]))) = None
   \<and> message (result (run sampleToString initialState (fillForm sampleForm @ [SubmitClick]))) = []
   \<and> (prediction (result (step sampleToString
          (run sampleToString initialState (fillForm sampleForm @ [SubmitClick])) TimeoutFires))
        = Some positive
      \<or> prediction (result (step sampleToString
          (run sampleToString initialState (fillForm sampleForm @ [SubmitClick])) TimeoutFires))
        = Some negative)
   \<and> message (result (step sampleToString
          (run sampleToString initialState (fillForm sampleForm @ [SubmitClick])) TimeoutFires)) \<noteq> []"
proof -
  let ?s = "run sampleToString initialState (fillForm sampleForm @ [SubmitClick])"
  have p: "timeouts ?s \<noteq> []" and r: "prediction (result ?s) = None" "message (result ?s) = []"
    unfolding sample_pending by (simp_all add: initialState_def)
  note n = result_fully_populated [OF refl, of sampleToString "fillForm sampleForm @ [SubmitClick]",
      THEN conjunct2, THEN conjunct1, rule_format, OF p]
  show ?thesis using p r n by (intro conjI) blast+
qed

end
